theory Spec2Isabelle
  imports Complex_Main
begin

section \<open>NumPy arrays as the notebook uses them\<close>

text \<open>
  The notebook is straight-line NumPy code over small complex arrays. A one-dimensional
  array is a list of its entries. A two-dimensional array carries its shape, as an
  \<^verbatim>\<open>ndarray\<close> does, next to its rows, so that the shapes \<open>(0, m)\<close> and \<open>(n, 0)\<close> are
  values too. Python's \<^verbatim>\<open>complex\<close> and NumPy's \<^verbatim>\<open>complex128\<close> are modelled by the
  exact type \<^typ>\<open>complex\<close>: the rounding of IEEE doubles is outside the model. The
  NumPy functions the cells call are modelled by what NumPy documents them to compute.
  The interferometer of Exercise 5 is left out: the values its cell returns are decided
  by rounding.
\<close>

record 'a array2 =
  nrows :: nat
  ncols :: nat
  rows :: "'a list list"

text \<open>An \<^verbatim>\<open>ndarray\<close> is rectangular: it holds \<open>nrows\<close> rows of \<open>ncols\<close> entries each.\<close>

definition wf_array2 :: "'a array2 \<Rightarrow> bool" where
  "wf_array2 A \<longleftrightarrow>
     length (rows A) = nrows A \<and> list_all (\<lambda>r. length r = ncols A) (rows A)"

text \<open>\<^verbatim>\<open>np.array([[...], ...])\<close> on a non-empty nested list of equally long rows.\<close>

definition np_array :: "'a list list \<Rightarrow> 'a array2" where
  "np_array rs =
     \<lparr>nrows = length rs, ncols = (case rs of [] \<Rightarrow> 0 | r # _ \<Rightarrow> length r), rows = rs\<rparr>"

text \<open>
  NumPy raises \<^verbatim>\<open>ValueError\<close> when the shapes of two operands do not fit. No cell
  catches it, so an error ends the cell.
\<close>

datatype error = ValueError

definition bind_e :: "error + 'a \<Rightarrow> ('a \<Rightarrow> error + 'b) \<Rightarrow> error + 'b" where
  "bind_e r f = (case r of Inl e \<Rightarrow> Inl e | Inr x \<Rightarrow> f x)"

subsection \<open>\<^verbatim>\<open>np.kron\<close>\<close>

text \<open>
  \<^verbatim>\<open>np.kron(a, b)\<close> multiplies every entry of \<open>a\<close> with every entry of \<open>b\<close>
  (an outer product) and flattens the result in row-major order, the entries of \<open>b\<close>
  varying fastest. On two-dimensional arrays it does so along both axes.
\<close>

definition outer :: "'a::times list \<Rightarrow> 'a list \<Rightarrow> 'a list list" where
  "outer v w = map (\<lambda>a. map (\<lambda>b. a * b) w) v"

definition kron_v :: "'a::times list \<Rightarrow> 'a list \<Rightarrow> 'a list" where
  "kron_v v w = concat (outer v w)"

definition kron_m :: "'a::times array2 \<Rightarrow> 'a array2 \<Rightarrow> 'a array2" where
  "kron_m A B =
     \<lparr>nrows = nrows A * nrows B, ncols = ncols A * ncols B,
      rows = concat (map (\<lambda>ra. map (\<lambda>rb. kron_v ra rb) (rows B)) (rows A))\<rparr>"

subsection \<open>\<^verbatim>\<open>.conj()\<close>, \<^verbatim>\<open>.T\<close>, \<^verbatim>\<open>np.dot\<close>, \<^verbatim>\<open>np.eye\<close> and scalars\<close>

definition conj_a :: "complex array2 \<Rightarrow> complex array2" where
  "conj_a A = A\<lparr>rows := map (map cnj) (rows A)\<rparr>"

definition T :: "'a array2 \<Rightarrow> 'a array2" where
  "T A =
     \<lparr>nrows = ncols A, ncols = nrows A,
      rows = map (\<lambda>j. map (\<lambda>r. r ! j) (rows A)) [0..<ncols A]\<rparr>"

definition dot_vv :: "complex list \<Rightarrow> complex list \<Rightarrow> complex" where
  "dot_vv u v = sum_list (map2 (*) u v)"

definition dot_mm :: "complex array2 \<Rightarrow> complex array2 \<Rightarrow> error + complex array2" where
  "dot_mm A B =
     (if ncols A = nrows B
      then Inr \<lparr>nrows = nrows A, ncols = ncols B,
                rows = map (\<lambda>ra. map (\<lambda>cb. dot_vv ra cb) (rows (T B))) (rows A)\<rparr>
      else Inl ValueError)"

definition dot_mv :: "complex array2 \<Rightarrow> complex list \<Rightarrow> error + complex list" where
  "dot_mv A v =
     (if ncols A = length v then Inr (map (\<lambda>ra. dot_vv ra v) (rows A)) else Inl ValueError)"

definition eye :: "nat \<Rightarrow> complex array2" where
  "eye n =
     \<lparr>nrows = n, ncols = n,
      rows = map (\<lambda>i. map (\<lambda>j. if i = j then 1 else 0) [0..<n]) [0..<n]\<rparr>"

text \<open>\<^verbatim>\<open>c * A\<close>, \<^verbatim>\<open>A * c\<close> and \<^verbatim>\<open>A / c\<close> for a scalar \<open>c\<close>.\<close>

definition smul :: "complex \<Rightarrow> complex array2 \<Rightarrow> complex array2" where
  "smul c A = A\<lparr>rows := map (map (\<lambda>z. c * z)) (rows A)\<rparr>"

definition mul_s :: "complex array2 \<Rightarrow> complex \<Rightarrow> complex array2" where
  "mul_s A c = A\<lparr>rows := map (map (\<lambda>z. z * c)) (rows A)\<rparr>"

definition div_s :: "complex array2 \<Rightarrow> complex \<Rightarrow> complex array2" where
  "div_s A c = A\<lparr>rows := map (map (\<lambda>z. z / c)) (rows A)\<rparr>"

subsection \<open>\<^verbatim>\<open>np.allclose\<close>\<close>

text \<open>
  \<^verbatim>\<open>np.allclose(a, b, rtol, atol)\<close> holds when \<open>|a - b| \<le> atol + rtol * |b|\<close> at every
  position; the test is not symmetric in \<open>a\<close> and \<open>b\<close>. The defaults are
  \<open>rtol = 1e-05\<close> and \<open>atol = 1e-08\<close>. The operands are broadcast against each other
  first: along each axis the two sizes must be equal or one of them must be 1, and an
  axis of size 1 is repeated to the size of the other operand. Sizes that do not fit
  raise \<^verbatim>\<open>ValueError\<close>.
\<close>

definition isclose :: "real \<Rightarrow> real \<Rightarrow> complex \<Rightarrow> complex \<Rightarrow> bool" where
  "isclose rtol atol a b \<longleftrightarrow> cmod (a - b) \<le> atol + rtol * cmod b"

definition broadcast_dim :: "nat \<Rightarrow> nat \<Rightarrow> nat option" where
  "broadcast_dim a b =
     (if a = b then Some a else if a = 1 then Some b else if b = 1 then Some a else None)"

definition broadcast_to :: "nat \<Rightarrow> nat \<Rightarrow> 'a array2 \<Rightarrow> 'a array2" where
  "broadcast_to n m A =
     \<lparr>nrows = n, ncols = m,
      rows = map (\<lambda>i. map (\<lambda>j. rows A ! (if nrows A = 1 then 0 else i)
                                    ! (if ncols A = 1 then 0 else j)) [0..<m]) [0..<n]\<rparr>"

definition allclose :: "real \<Rightarrow> real \<Rightarrow> complex array2 \<Rightarrow> complex array2 \<Rightarrow> error + bool" where
  "allclose rtol atol A B =
     (case broadcast_dim (nrows A) (nrows B) of
        None \<Rightarrow> Inl ValueError
      | Some n \<Rightarrow>
          (case broadcast_dim (ncols A) (ncols B) of
             None \<Rightarrow> Inl ValueError
           | Some m \<Rightarrow>
               Inr (list_all2 (list_all2 (isclose rtol atol))
                      (rows (broadcast_to n m A)) (rows (broadcast_to n m B)))))"

definition np_allclose :: "complex array2 \<Rightarrow> complex array2 \<Rightarrow> error + bool" where
  "np_allclose A B = allclose (1 / 10 ^ 5) (1 / 10 ^ 8) A B"

subsection \<open>The checks of the tutorial cells\<close>

text \<open>
  \<^verbatim>\<open>is_hermitian = np.allclose(hermitian_matrix, hermitian_matrix.conj().T)\<close> and
  \<^verbatim>\<open>is_unitary = np.allclose(np.dot(M, M.conj().T), np.eye(2))\<close>, as functions of the
  matrix; \<open>is_hermitian_tol\<close> is the same call with \<open>rtol\<close> and \<open>atol\<close> passed.
\<close>

definition is_hermitian_tol :: "real \<Rightarrow> real \<Rightarrow> complex array2 \<Rightarrow> error + bool" where
  "is_hermitian_tol rtol atol M = allclose rtol atol M (T (conj_a M))"

definition is_hermitian :: "complex array2 \<Rightarrow> error + bool" where
  "is_hermitian M = np_allclose M (T (conj_a M))"

definition is_unitary :: "complex array2 \<Rightarrow> error + bool" where
  "is_unitary U = bind_e (dot_mm U (T (conj_a U))) (\<lambda>P. np_allclose P (eye 2))"

definition hermitian_matrix :: "complex array2" where
  "hermitian_matrix = np_array [[2 + 0 * \<i>, 2 - \<i>], [2 + \<i>, 3 + 0 * \<i>]]"

definition tut_v1 :: "complex list" where
  "tut_v1 = [1 + 2 * \<i>, 3 + 4 * \<i>]"

definition tut_v2 :: "complex list" where
  "tut_v2 = [5 + 6 * \<i>, 7 + 8 * \<i>]"

definition tut_tensor_product_v :: "complex list" where
  "tut_tensor_product_v = kron_v tut_v1 tut_v2"

subsection \<open>Exercise 1\<close>

definition ex1_hermitian_matrix :: "complex array2" where
  "ex1_hermitian_matrix = np_array [[3, 2 + \<i>], [2 - \<i>, 1]]"

definition ex1_A :: "complex array2" where
  "ex1_A = np_array [[3, 2 + \<i>], [2 - \<i>, 1 + 0 * \<i>]]"

text \<open>
  \<^verbatim>\<open>np.linalg.eig(A)\<close> returns the eigenvalues of \<open>A\<close>: the scalars \<open>l\<close> with
  \<open>A v = l v\<close> for some vector \<open>v\<close> that is not zero. Its numerical method is LAPACK's
  and is not part of the notebook; the model is this contract.
\<close>

definition is_eigenpair :: "complex array2 \<Rightarrow> complex \<Rightarrow> complex list \<Rightarrow> bool" where
  "is_eigenpair A l v \<longleftrightarrow>
     length v = ncols A \<and> v \<noteq> replicate (length v) 0 \<and>
     dot_mv A v = Inr (map (\<lambda>z. l * z) v)"

definition is_eigenvalue :: "complex array2 \<Rightarrow> complex \<Rightarrow> bool" where
  "is_eigenvalue A l \<longleftrightarrow> (\<exists>v. is_eigenpair A l v)"

text \<open>
  The closed form that the specification states for a 2 x 2 matrix,
  \<open>(trace \<plusminus> sqrt (trace\<^sup>2 - 4 det)) / 2\<close>, to be compared with the eigenvalues above.
\<close>

definition spec_eigenvalues_2x2 :: "complex array2 \<Rightarrow> complex \<times> complex" where
  "spec_eigenvalues_2x2 A =
     (let a = rows A ! 0 ! 0; b = rows A ! 0 ! 1; c = rows A ! 1 ! 0; d = rows A ! 1 ! 1;
          tr = a + d; det = a * d - b * c;
          s = csqrt (tr ^ 2 - 4 * det)
      in ((tr + s) / 2, (tr - s) / 2))"

subsection \<open>Exercise 2\<close>

text \<open>
  \<^verbatim>\<open>unitary_matrix * 1 / np.sqrt(2)\<close> multiplies by 1 and then divides. The value of the
  cell is its last expression, the pair \<^verbatim>\<open>is_unitary, unitary_matrix\<close>.
\<close>

definition ex2_unitary_matrix :: "complex array2" where
  "ex2_unitary_matrix = np_array [[1, \<i>], [\<i>, 1]]"

definition ex2_unitary_matrix2 :: "complex array2" where
  "ex2_unitary_matrix2 = div_s (mul_s ex2_unitary_matrix 1) (complex_of_real (sqrt 2))"

definition ex2_is_unitary :: "error + bool" where
  "ex2_is_unitary = is_unitary ex2_unitary_matrix2"

definition ex2_output :: "error + bool \<times> complex array2" where
  "ex2_output = bind_e ex2_is_unitary (\<lambda>b. Inr (b, ex2_unitary_matrix))"

subsection \<open>Exercise 3\<close>

text \<open>
  The first entry of \<open>v1\<close> is written \<^verbatim>\<open>1+1\<close>: Python adds two integers, and
  \<^verbatim>\<open>np.array\<close> stores the result as the complex number 2.
\<close>

definition ex3_v1 :: "complex list" where
  "ex3_v1 = [of_int (1 + 1), 2 - \<i>]"

definition ex3_v2 :: "complex list" where
  "ex3_v2 = [1 - 2 * \<i>, 3 + 0 * \<i>]"

definition ex3_tensor_product_v :: "complex list" where
  "ex3_tensor_product_v = kron_v ex3_v1 ex3_v2"

subsection \<open>Exercise 4\<close>

definition ex4_M1 :: "complex array2" where
  "ex4_M1 = np_array [[0, 1], [1, 0]]"

definition ex4_M2 :: "complex array2" where
  "ex4_M2 = np_array [[\<i>, 0], [0, - \<i>]]"

definition ex4_tensor_product :: "complex array2" where
  "ex4_tensor_product = kron_m ex4_M1 ex4_M2"

section \<open>Properties\<close>

subsection \<open>Indexing a flattened list of rows\<close>

lemma length_concat_uniform:
  "list_all (\<lambda>r. length r = n) xss \<Longrightarrow> length (concat xss) = length xss * n"
  by (induction xss) simp_all

lemma nth_concat_uniform:
  "list_all (\<lambda>r. length r = n) xss \<Longrightarrow> i < length xss \<Longrightarrow> j < n \<Longrightarrow>
     concat xss ! (i * n + j) = xss ! i ! j"
proof (induction xss arbitrary: i)
  case Nil
  then show ?case by simp
next
  case (Cons r xss)
  show ?case
  proof (cases i)
    case 0
    with Cons.prems show ?thesis by (simp add: nth_append)
  next
    case (Suc k)
    with Cons.prems have "concat xss ! (k * n + j) = xss ! k ! j"
      by (intro Cons.IH) simp_all
    moreover have "Suc k * n + j = length r + (k * n + j)"
      using Cons.prems by simp
    ultimately show ?thesis
      using Suc by (simp only: concat.simps nth_append_length_plus nth_Cons_Suc)
  qed
qed

lemma outer_uniform: "list_all (\<lambda>r. length r = length w) (outer v w)"
  by (simp add: outer_def list_all_iff)

lemma kron_v_length: "length (kron_v v w) = length v * length w"
  using length_concat_uniform [OF outer_uniform [of w v]]
  by (simp add: kron_v_def outer_def)

lemma kron_v_nth:
  assumes "i < length v" and "j < length w"
  shows "kron_v v w ! (i * length w + j) = v ! i * w ! j"
proof -
  from assms have "concat (outer v w) ! (i * length w + j) = outer v w ! i ! j"
    by (intro nth_concat_uniform outer_uniform) (simp_all add: outer_def)
  with assms show ?thesis
    by (simp add: kron_v_def outer_def)
qed

lemma kron_m_entry:
  assumes wfA: "wf_array2 A" and wfB: "wf_array2 B"
    and i: "i < nrows A" and k: "k < nrows B" and j: "j < ncols A" and l: "l < ncols B"
  shows "rows (kron_m A B) ! (i * nrows B + k) ! (j * ncols B + l) =
         rows A ! i ! j * rows B ! k ! l"
proof -
  let ?xss = "map (\<lambda>ra. map (\<lambda>rb. kron_v ra rb) (rows B)) (rows A)"
  from wfA wfB have lenA: "length (rows A) = nrows A" and lenB: "length (rows B) = nrows B"
    and rowA: "\<And>n. n < nrows A \<Longrightarrow> length (rows A ! n) = ncols A"
    and rowB: "\<And>n. n < nrows B \<Longrightarrow> length (rows B ! n) = ncols B"
    by (simp_all add: wf_array2_def list_all_length)
  have "list_all (\<lambda>r. length r = nrows B) ?xss"
    by (simp add: list_all_iff lenB)
  then have "concat ?xss ! (i * nrows B + k) = ?xss ! i ! k"
    using i k by (intro nth_concat_uniform) (simp_all add: lenA)
  also have "\<dots> = kron_v (rows A ! i) (rows B ! k)"
    using i k by (simp add: lenA lenB)
  finally have "rows (kron_m A B) ! (i * nrows B + k) = kron_v (rows A ! i) (rows B ! k)"
    by (simp add: kron_m_def)
  moreover have "kron_v (rows A ! i) (rows B ! k) ! (j * length (rows B ! k) + l) =
      rows A ! i ! j * rows B ! k ! l"
    using i j k l by (intro kron_v_nth) (simp_all add: rowA rowB)
  ultimately show ?thesis
    using k by (simp add: rowB)
qed

text \<open>
  C1: for \<open>v\<close> of length \<open>m\<close> and \<open>w\<close> of length \<open>n\<close>, \<^verbatim>\<open>np.kron(v, w)\<close> has length
  \<open>m * n\<close> and its entry at \<open>i * n + j\<close> is \<open>v[i] * w[j]\<close>, for all \<open>i < m\<close> and
  \<open>j < n\<close>. The multiplication is that of the entry type, whatever it is.
\<close>

theorem kron_v_entries:
  "length (kron_v v w) = length v * length w \<and>
   (\<forall>i j. i < length v \<longrightarrow> j < length w \<longrightarrow>
      kron_v v w ! (i * length w + j) = v ! i * w ! j)"
  by (simp add: kron_v_length kron_v_nth)

theorem kron_v_entries_witness:
  "(1::nat) < length tut_v1 \<and> (0::nat) < length tut_v2 \<and>
   length tut_tensor_product_v = 4 \<and>
   tut_tensor_product_v ! 2 = (3 + 4 * \<i>) * (5 + 6 * \<i>)"
proof -
  have len: "(1::nat) < length tut_v1" "(0::nat) < length tut_v2"
    by (simp_all add: tut_v1_def tut_v2_def)
  have idx: "1 * length tut_v2 + 0 = 2" and size: "length tut_v1 * length tut_v2 = 4"
    and prod: "tut_v1 ! 1 * tut_v2 ! 0 = (3 + 4 * \<i>) * (5 + 6 * \<i>)"
    by (simp_all add: tut_v1_def tut_v2_def)
  from kron_v_entries [of tut_v1 tut_v2] len
  have "kron_v tut_v1 tut_v2 ! (1 * length tut_v2 + 0) = tut_v1 ! 1 * tut_v2 ! 0"
    and "length (kron_v tut_v1 tut_v2) = length tut_v1 * length tut_v2"
    by blast+
  then have "kron_v tut_v1 tut_v2 ! 2 = (3 + 4 * \<i>) * (5 + 6 * \<i>)"
    and "length (kron_v tut_v1 tut_v2) = 4"
    unfolding idx size prod .
  with len show ?thesis
    unfolding tut_tensor_product_v_def by (intro conjI)
qed

subsection \<open>Conjugate transpose\<close>

lemma conj_T_shape [simp]:
  "nrows (T (conj_a M)) = ncols M" "ncols (T (conj_a M)) = nrows M"
  "length (rows (T (conj_a M))) = ncols M"
  by (simp_all add: T_def conj_a_def)

lemma conj_T_row:
  assumes "wf_array2 M" and "j < ncols M"
  shows "rows (T (conj_a M)) ! j = map (\<lambda>i. cnj (rows M ! i ! j)) [0..<nrows M]"
proof -
  from assms(1) have len: "length (rows M) = nrows M"
    and row: "\<And>r. r \<in> set (rows M) \<Longrightarrow> length r = ncols M"
    by (simp_all add: wf_array2_def list_all_iff)
  have "map (\<lambda>r. r ! j) (map (map cnj) (rows M)) = map (\<lambda>i. cnj (rows M ! i ! j)) [0..<nrows M]"
  proof (rule nth_equalityI)
    show "length (map (\<lambda>r. r ! j) (map (map cnj) (rows M))) =
          length (map (\<lambda>i. cnj (rows M ! i ! j)) [0..<nrows M])"
      by (simp add: len)
  next
    fix i
    assume "i < length (map (\<lambda>r. r ! j) (map (map cnj) (rows M)))"
    then have i: "i < nrows M" by (simp add: len)
    then have "rows M ! i \<in> set (rows M)" by (simp add: len)
    then have "j < length (rows M ! i)" using row assms(2) by simp
    with i show "map (\<lambda>r. r ! j) (map (map cnj) (rows M)) ! i =
                 map (\<lambda>i. cnj (rows M ! i ! j)) [0..<nrows M] ! i"
      by (simp add: len)
  qed
  with assms(2) show ?thesis by (simp add: T_def conj_a_def)
qed

lemma conj_T_entry:
  "wf_array2 M \<Longrightarrow> j < ncols M \<Longrightarrow> i < nrows M \<Longrightarrow>
     rows (T (conj_a M)) ! j ! i = cnj (rows M ! i ! j)"
  by (simp add: conj_T_row)

lemma conj_T_wf: "wf_array2 M \<Longrightarrow> wf_array2 (T (conj_a M))"
  by (simp add: wf_array2_def T_def conj_a_def list_all_iff)

lemma conj_T_involution:
  assumes "wf_array2 M"
  shows "T (conj_a (T (conj_a M))) = M"
proof -
  let ?N = "T (conj_a M)"
  from assms have len: "length (rows M) = nrows M"
    and row: "\<And>r. r \<in> set (rows M) \<Longrightarrow> length r = ncols M"
    by (simp_all add: wf_array2_def list_all_iff)
  have wfN: "wf_array2 ?N" using assms by (rule conj_T_wf)
  have "rows (T (conj_a ?N)) = rows M"
  proof (rule nth_equalityI)
    show "length (rows (T (conj_a ?N))) = length (rows M)" by (simp add: len)
  next
    fix i
    assume "i < length (rows (T (conj_a ?N)))"
    then have i: "i < nrows M" by simp
    then have "rows M ! i \<in> set (rows M)" by (simp add: len)
    then have li: "length (rows M ! i) = ncols M" by (rule row)
    have "rows (T (conj_a ?N)) ! i = map (\<lambda>j. cnj (rows ?N ! j ! i)) [0..<ncols M]"
      using conj_T_row [OF wfN, of i] i by simp
    also have "\<dots> = map (\<lambda>j. rows M ! i ! j) [0..<ncols M]"
      using assms i by (simp add: conj_T_entry)
    also have "\<dots> = rows M ! i"
      using map_nth [of "rows M ! i"] li by simp
    finally show "rows (T (conj_a ?N)) ! i = rows M ! i" .
  qed
  moreover have "nrows (T (conj_a ?N)) = nrows M" "ncols (T (conj_a ?N)) = ncols M"
    by simp_all
  moreover have "more (T (conj_a ?N)) = more M" by (simp add: T_def conj_a_def)
  ultimately show ?thesis by (simp add: array2.equality)
qed

lemma isclose_cnj: "isclose rtol atol x (cnj y) \<longleftrightarrow> isclose rtol atol (cnj x) y"
proof -
  have "cmod (x - cnj y) = cmod (cnj (x - cnj y))" by (simp only: complex_mod_cnj)
  then show ?thesis by (simp add: isclose_def)
qed

lemma broadcast_dim_same [simp]: "broadcast_dim n n = Some n"
  by (simp add: broadcast_dim_def)

lemma broadcast_to_entry:
  "i < nrows A \<Longrightarrow> j < ncols A \<Longrightarrow>
     rows (broadcast_to (nrows A) (ncols A) A) ! i ! j = rows A ! i ! j"
  by (auto simp: broadcast_to_def)

lemma allclose_entries:
  assumes "wf_array2 A" and "wf_array2 B" and "nrows A = nrows B" and "ncols A = ncols B"
  shows "allclose rtol atol A B =
    Inr (\<forall>i<nrows A. \<forall>j<ncols A. isclose rtol atol (rows A ! i ! j) (rows B ! i ! j))"
proof -
  let ?A = "broadcast_to (nrows A) (ncols A) A"
  let ?B = "broadcast_to (nrows A) (ncols A) B"
  have len: "length (rows ?A) = nrows A" "length (rows ?B) = nrows A"
    and rowA: "\<And>i. i < nrows A \<Longrightarrow> length (rows ?A ! i) = ncols A"
    and rowB: "\<And>i. i < nrows A \<Longrightarrow> length (rows ?B ! i) = ncols A"
    by (simp_all add: broadcast_to_def)
  have eA: "\<And>i j. i < nrows A \<Longrightarrow> j < ncols A \<Longrightarrow> rows ?A ! i ! j = rows A ! i ! j"
    by (rule broadcast_to_entry)
  have eB: "\<And>i j. i < nrows A \<Longrightarrow> j < ncols A \<Longrightarrow> rows ?B ! i ! j = rows B ! i ! j"
    using broadcast_to_entry [of _ B] assms(3,4) by simp
  have "allclose rtol atol A B =
      Inr (list_all2 (list_all2 (isclose rtol atol)) (rows ?A) (rows ?B))"
    using assms(3,4) by (simp add: allclose_def)
  also have "list_all2 (list_all2 (isclose rtol atol)) (rows ?A) (rows ?B) \<longleftrightarrow>
      (\<forall>i<nrows A. \<forall>j<ncols A. isclose rtol atol (rows A ! i ! j) (rows B ! i ! j))"
    by (simp add: list_all2_conv_all_nth len rowA rowB eA eB)
  finally show ?thesis .
qed

text \<open>
  C7: for every complex matrix \<open>M\<close> of any shape \<open>n \<times> m\<close>, taking the conjugate
  transpose twice gives \<open>M\<close> back.
\<close>

theorem conj_transpose_roundtrip:
  "wf_array2 M \<Longrightarrow> T (conj_a (T (conj_a M))) = M"
  by (rule conj_T_involution)

theorem conj_transpose_roundtrip_witness:
  "wf_array2 (np_array [[1 + \<i>, 2, 3 * \<i>], [4, 5 - \<i>, 6]]) \<and>
   T (conj_a (np_array [[1 + \<i>, 2, 3 * \<i>], [4, 5 - \<i>, 6]])) =
     np_array [[1 - \<i>, 4], [2, 5 + \<i>], [- (3 * \<i>), 6]] \<and>
   T (conj_a (T (conj_a (np_array [[1 + \<i>, 2, 3 * \<i>], [4, 5 - \<i>, 6]])))) =
     np_array [[1 + \<i>, 2, 3 * \<i>], [4, 5 - \<i>, 6]]"
proof -
  have wf: "wf_array2 (np_array [[1 + \<i>, 2, 3 * \<i>], [4, 5 - \<i>, 6]])"
    by (simp add: wf_array2_def np_array_def)
  have "[0..<3] = [0, 1, 2]"
    by (simp add: numeral_3_eq_3)
  then have "T (conj_a (np_array [[1 + \<i>, 2, 3 * \<i>], [4, 5 - \<i>, 6]])) =
     np_array [[1 - \<i>, 4], [2, 5 + \<i>], [- (3 * \<i>), 6]]"
    by (simp add: T_def conj_a_def np_array_def)
  with wf conj_transpose_roundtrip [OF wf] show ?thesis
    by (simp only: simp_thms)
qed

subsection \<open>The Hermitian check\<close>

lemma hermitian_conj_T:
  assumes wf: "wf_array2 M" and sq: "nrows M = ncols M"
  shows "is_hermitian_tol rtol atol M = is_hermitian_tol rtol atol (T (conj_a M))"
proof -
  let ?N = "T (conj_a M)"
  let ?n = "nrows M"
  have wfN: "wf_array2 ?N" using wf by (rule conj_T_wf)
  have shape: "nrows M = nrows ?N" "ncols M = ncols ?N"
    using sq by simp_all
  have entry: "\<And>i j. i < ?n \<Longrightarrow> j < ?n \<Longrightarrow> rows ?N ! i ! j = cnj (rows M ! j ! i)"
    using wf sq by (simp add: conj_T_entry)
  have "allclose rtol atol M ?N =
    Inr (\<forall>i<?n. \<forall>j<ncols M. isclose rtol atol (rows M ! i ! j) (rows ?N ! i ! j))"
    by (rule allclose_entries [OF wf wfN shape])
  then have 1: "is_hermitian_tol rtol atol M =
    Inr (\<forall>i<?n. \<forall>j<?n. isclose rtol atol (rows M ! i ! j) (cnj (rows M ! j ! i)))"
    unfolding is_hermitian_tol_def sq [symmetric] by (simp add: entry)
  have "allclose rtol atol ?N M =
    Inr (\<forall>i<nrows ?N. \<forall>j<ncols ?N. isclose rtol atol (rows ?N ! i ! j) (rows M ! i ! j))"
    by (rule allclose_entries [OF wfN wf shape [symmetric]])
  then have "allclose rtol atol ?N M =
    Inr (\<forall>i<?n. \<forall>j<?n. isclose rtol atol (rows ?N ! i ! j) (rows M ! i ! j))"
    unfolding shape [symmetric] sq [symmetric] .
  then have 2: "is_hermitian_tol rtol atol ?N =
    Inr (\<forall>i<?n. \<forall>j<?n. isclose rtol atol (cnj (rows M ! j ! i)) (rows M ! i ! j))"
    unfolding is_hermitian_tol_def conj_T_involution [OF wf] by (simp add: entry)
  have "(\<forall>i<?n. \<forall>j<?n. isclose rtol atol (rows M ! i ! j) (cnj (rows M ! j ! i))) \<longleftrightarrow>
    (\<forall>i<?n. \<forall>j<?n. isclose rtol atol (cnj (rows M ! j ! i)) (rows M ! i ! j))"
    by (auto simp: isclose_cnj)
  with 1 2 show ?thesis by simp
qed

text \<open>
  C8: for every square complex matrix \<open>M\<close> and every tolerance, the Hermitian check
  gives the same answer on \<open>M\<close> and on its conjugate transpose; with the default
  tolerances too. The check returns a truth value on a square matrix, not an error.
\<close>

theorem is_hermitian_conj_transpose:
  assumes "wf_array2 M" and "nrows M = ncols M"
  shows "is_hermitian_tol rtol atol M = is_hermitian_tol rtol atol (T (conj_a M)) \<and>
         is_hermitian M = is_hermitian (T (conj_a M)) \<and>
         (\<exists>b. is_hermitian_tol rtol atol M = Inr b)"
proof (intro conjI)
  show "is_hermitian_tol rtol atol M = is_hermitian_tol rtol atol (T (conj_a M))"
    using assms by (rule hermitian_conj_T)
  have "is_hermitian_tol (1 / 10 ^ 5) (1 / 10 ^ 8) M =
        is_hermitian_tol (1 / 10 ^ 5) (1 / 10 ^ 8) (T (conj_a M))"
    using assms by (rule hermitian_conj_T)
  then show "is_hermitian M = is_hermitian (T (conj_a M))"
    by (simp only: is_hermitian_def is_hermitian_tol_def np_allclose_def)
  show "\<exists>b. is_hermitian_tol rtol atol M = Inr b"
    using assms(2) by (simp add: is_hermitian_tol_def allclose_def)
qed

theorem is_hermitian_conj_transpose_witness:
  "wf_array2 hermitian_matrix \<and> nrows hermitian_matrix = ncols hermitian_matrix \<and>
   is_hermitian hermitian_matrix = is_hermitian (T (conj_a hermitian_matrix)) \<and>
   is_hermitian hermitian_matrix = Inr True"
proof -
  have wf: "wf_array2 hermitian_matrix"
    by (simp add: wf_array2_def hermitian_matrix_def np_array_def)
  have sq: "nrows hermitian_matrix = ncols hermitian_matrix"
    by (simp add: hermitian_matrix_def np_array_def)
  have "is_hermitian hermitian_matrix = Inr True"
    by (simp add: is_hermitian_def np_allclose_def allclose_def broadcast_to_def isclose_def
        hermitian_matrix_def T_def conj_a_def np_array_def numeral_2_eq_2)
  with wf sq is_hermitian_conj_transpose [OF wf sq] show ?thesis
    by simp
qed

subsection \<open>Evaluating the cells\<close>

lemma upt2: "[0..<2] = [0, 1]"
  by (simp add: numeral_2_eq_2)

lemmas eval_defs = T_def conj_a_def np_array_def dot_mm_def dot_mv_def dot_vv_def eye_def
  bind_e_def smul_def mul_s_def div_s_def upt2

subsection \<open>Exercise 1: the Hermitian matrix and its eigenvalues\<close>

lemma sqrt24: "sqrt 24 = 2 * sqrt 6"
proof -
  have "sqrt 24 = sqrt (4 * 6)" by simp
  also have "\<dots> = sqrt 4 * sqrt 6" by (rule real_sqrt_mult)
  also have "sqrt 4 = (2::real)" using real_sqrt_abs [of 2] by simp
  finally show ?thesis by simp
qed

lemma ex1_closed_form:
  "spec_eigenvalues_2x2 ex1_A = (complex_of_real (2 + sqrt 6), complex_of_real (2 - sqrt 6))"
proof -
  have "(3 + 1) ^ 2 - 4 * (3 * 1 - (2 + \<i>) * (2 - \<i>)) = complex_of_real 24"
    by (simp add: complex_eq_iff power2_eq_square)
  moreover have "csqrt (complex_of_real 24) = complex_of_real (sqrt 24)"
    using of_real_sqrt [of 24] by simp
  ultimately have "csqrt ((3 + 1) ^ 2 - 4 * (3 * 1 - (2 + \<i>) * (2 - \<i>))) = complex_of_real (sqrt 24)"
    by (simp only:)
  then show ?thesis
    by (simp add: spec_eigenvalues_2x2_def ex1_A_def np_array_def Let_def sqrt24)
qed

lemma vec2: "length v = 2 \<longleftrightarrow> (\<exists>x y. v = [x, y])"
  by (auto simp: numeral_2_eq_2 length_Suc_conv)

lemma ex1_eigen_char:
  "is_eigenvalue ex1_A l \<longleftrightarrow> l ^ 2 - 4 * l - 2 = 0"
proof
  assume "is_eigenvalue ex1_A l"
  then obtain v where v: "is_eigenpair ex1_A l v"
    by (auto simp: is_eigenvalue_def)
  then have "length v = 2"
    by (simp add: is_eigenpair_def ex1_A_def np_array_def)
  then obtain x y where xy: "v = [x, y]"
    by (auto simp: vec2)
  from v have nz: "x \<noteq> 0 \<or> y \<noteq> 0"
    and e1: "3 * x + (2 + \<i>) * y = l * x" and e2: "(2 - \<i>) * x + y = l * y"
    unfolding xy
    by (simp_all add: is_eigenpair_def ex1_A_def np_array_def dot_mv_def dot_vv_def numeral_2_eq_2)
  from e1 have a: "(2 + \<i>) * y = (l - 3) * x" by (simp add: algebra_simps)
  from e2 have b: "(2 - \<i>) * x = (l - 1) * y" by (simp add: algebra_simps)
  have five: "(2 - \<i>) * (2 + \<i>) = 5" by (simp add: complex_eq_iff)
  have "5 * y = (2 - \<i>) * ((2 + \<i>) * y)" using five by (simp add: mult.assoc [symmetric])
  also have "\<dots> = (l - 3) * ((2 - \<i>) * x)" using a by (simp add: mult_ac)
  also have "\<dots> = (l - 3) * (l - 1) * y" using b by simp
  finally have c: "((l - 3) * (l - 1) - 5) * y = 0" by (simp add: algebra_simps)
  have "y \<noteq> 0"
  proof
    assume "y = 0"
    with b have "(2 - \<i>) * x = 0" by simp
    moreover have "2 - \<i> \<noteq> 0" by (simp add: complex_eq_iff)
    ultimately have "x = 0" by simp
    with \<open>y = 0\<close> nz show False by simp
  qed
  with c have "(l - 3) * (l - 1) - 5 = 0" by simp
  then show "l ^ 2 - 4 * l - 2 = 0" by (simp add: algebra_simps power2_eq_square)
next
  assume l: "l ^ 2 - 4 * l - 2 = 0"
  have nz: "2 + \<i> \<noteq> 0" by (simp add: complex_eq_iff)
  have five: "(2 - \<i>) * (2 + \<i>) = 5" by (simp add: complex_eq_iff)
  have "is_eigenpair ex1_A l [2 + \<i>, l - 3]"
    using l nz five
    by (simp add: is_eigenpair_def ex1_A_def np_array_def dot_mv_def dot_vv_def numeral_2_eq_2 algebra_simps power2_eq_square)
  then show "is_eigenvalue ex1_A l" by (auto simp: is_eigenvalue_def)
qed

lemma ex1_char_roots:
  "l ^ 2 - 4 * l - 2 = 0 \<longleftrightarrow> l = complex_of_real (2 + sqrt 6) \<or> l = complex_of_real (2 - sqrt 6)"
proof -
  have s: "complex_of_real (sqrt 6) * complex_of_real (sqrt 6) = 6"
    by (simp add: of_real_mult [symmetric] del: of_real_mult)
  have "l ^ 2 - 4 * l - 2 = (l - (2 + complex_of_real (sqrt 6))) * (l - (2 - complex_of_real (sqrt 6)))"
    using s by (simp add: algebra_simps power2_eq_square)
  then have "l ^ 2 - 4 * l - 2 = 0 \<longleftrightarrow>
      l - (2 + complex_of_real (sqrt 6)) = 0 \<or> l - (2 - complex_of_real (sqrt 6)) = 0"
    by (simp only: mult_eq_0_iff)
  then show ?thesis by simp
qed

lemma sqrt6_bounds: "2449 / 1000 < sqrt 6" "sqrt 6 < 2450 / 1000"
proof -
  show "2449 / 1000 < sqrt 6"
    by (rule real_less_rsqrt) (simp add: power2_eq_square)
  show "sqrt 6 < 2450 / 1000"
    by (rule real_less_lsqrt) (simp_all add: power2_eq_square)
qed

text \<open>
  C4: the matrix \<open>H = [[3, 2 + i], [2 - i, 1]]\<close> passes the Hermitian check. Its
  eigenvalues are exactly \<open>2 + sqrt 6\<close> and \<open>2 - sqrt 6\<close>, the values of the closed
  form \<open>(trace \<plusminus> sqrt (trace\<^sup>2 - 4 det)) / 2\<close>; their imaginary parts are zero and they
  lie within \<open>0.001\<close> of \<open>4.449\<close> and \<open>-0.449\<close>.
\<close>

theorem ex1_hermitian_eigenvalues:
  "is_hermitian ex1_hermitian_matrix = Inr True \<and>
   spec_eigenvalues_2x2 ex1_A =
     (complex_of_real (2 + sqrt 6), complex_of_real (2 - sqrt 6)) \<and>
   (\<forall>l. is_eigenvalue ex1_A l \<longleftrightarrow>
      l = complex_of_real (2 + sqrt 6) \<or> l = complex_of_real (2 - sqrt 6)) \<and>
   Im (fst (spec_eigenvalues_2x2 ex1_A)) = 0 \<and>
   Im (snd (spec_eigenvalues_2x2 ex1_A)) = 0 \<and>
   \<bar>Re (fst (spec_eigenvalues_2x2 ex1_A)) - 4449 / 1000\<bar> < 1 / 1000 \<and>
   \<bar>Re (snd (spec_eigenvalues_2x2 ex1_A)) - (- 449 / 1000)\<bar> < 1 / 1000"
proof (intro conjI)
  show "is_hermitian ex1_hermitian_matrix = Inr True"
    by (simp add: is_hermitian_def np_allclose_def allclose_def broadcast_to_def isclose_def
        ex1_hermitian_matrix_def T_def conj_a_def np_array_def upt2)
  show "spec_eigenvalues_2x2 ex1_A =
      (complex_of_real (2 + sqrt 6), complex_of_real (2 - sqrt 6))"
    by (rule ex1_closed_form)
  show "\<forall>l. is_eigenvalue ex1_A l \<longleftrightarrow>
      l = complex_of_real (2 + sqrt 6) \<or> l = complex_of_real (2 - sqrt 6)"
    by (simp only: ex1_eigen_char ex1_char_roots simp_thms)
  show "Im (fst (spec_eigenvalues_2x2 ex1_A)) = 0"
    and "Im (snd (spec_eigenvalues_2x2 ex1_A)) = 0"
    by (simp_all add: ex1_closed_form)
  show "\<bar>Re (fst (spec_eigenvalues_2x2 ex1_A)) - 4449 / 1000\<bar> < 1 / 1000"
    using sqrt6_bounds by (simp add: ex1_closed_form)
  show "\<bar>Re (snd (spec_eigenvalues_2x2 ex1_A)) - (- 449 / 1000)\<bar> < 1 / 1000"
    using sqrt6_bounds by (simp add: ex1_closed_form)
qed

subsection \<open>Exercise 2: the unitary check\<close>

lemma ex2_product:
  "dot_mm ex2_unitary_matrix2 (T (conj_a ex2_unitary_matrix2)) = Inr (eye 2)"
  apply (simp add: ex2_unitary_matrix2_def ex2_unitary_matrix_def eval_defs)
  apply (simp add: complex_eq_iff power2_eq_square)
  done

lemma eye_close: "np_allclose (eye 2) (eye 2) = Inr True"
  by (simp add: np_allclose_def allclose_def broadcast_to_def isclose_def eye_def upt2)

lemma ex2_true: "ex2_is_unitary = Inr True"
  by (simp add: ex2_is_unitary_def is_unitary_def ex2_product bind_e_def eye_close)

lemma ex2_unscaled_product:
  "dot_mm ex2_unitary_matrix (T (conj_a ex2_unitary_matrix)) = Inr (smul 2 (eye 2))"
  by (simp add: ex2_unitary_matrix_def eval_defs)

lemma ex2_unscaled_false: "is_unitary ex2_unitary_matrix = Inr False"
  by (simp add: is_unitary_def ex2_unscaled_product bind_e_def np_allclose_def allclose_def broadcast_to_def isclose_def eye_def upt2 smul_def)

lemma ex2_scaled:
  "ex2_unitary_matrix2 = smul (complex_of_real (1 / sqrt 2)) (np_array [[1, \<i>], [\<i>, 1]])"
  by (simp add: ex2_unitary_matrix2_def ex2_unitary_matrix_def eval_defs divide_inverse mult.commute)

lemma allclose_eye_margin:
  assumes wf: "wf_array2 P" and shape: "nrows P = 2" "ncols P = 2"
    and near: "\<And>i j. i < 2 \<Longrightarrow> j < 2 \<Longrightarrow> cmod (rows P ! i ! j - rows (eye 2) ! i ! j) \<le> 1 / 10 ^ 8"
  shows "np_allclose P (eye 2) = Inr True"
proof -
  have wfI: "wf_array2 (eye 2)" by (simp add: wf_array2_def eye_def upt2)
  have sh: "nrows P = nrows (eye 2)" "ncols P = ncols (eye 2)"
    using shape by (simp_all add: eye_def)
  have "\<And>i j. i < 2 \<Longrightarrow> j < 2 \<Longrightarrow>
      isclose (1 / 10 ^ 5) (1 / 10 ^ 8) (rows P ! i ! j) (rows (eye 2) ! i ! j)"
  proof -
    fix i j :: nat
    assume "i < 2" "j < 2"
    then have "cmod (rows P ! i ! j - rows (eye 2) ! i ! j) \<le> 1 / 10 ^ 8" by (rule near)
    moreover have "0 \<le> 1 / 10 ^ 5 * cmod (rows (eye 2) ! i ! j)" by simp
    ultimately show "isclose (1 / 10 ^ 5) (1 / 10 ^ 8) (rows P ! i ! j) (rows (eye 2) ! i ! j)"
      unfolding isclose_def by linarith
  qed
  then show ?thesis
    unfolding np_allclose_def allclose_entries [OF wf wfI sh] shape by simp
qed

text \<open>
  C5: \<open>U = (1 / sqrt 2) [[1, i], [i, 1]]\<close>, the matrix \<open>unitary_matrix2\<close> of the
  Exercise 2 cell, is unitary: its product with its conjugate transpose is the
  2 x 2 identity, and the unitarity check on it returns true.
\<close>

theorem ex2_scaled_unitary:
  "ex2_unitary_matrix2 = smul (complex_of_real (1 / sqrt 2)) (np_array [[1, \<i>], [\<i>, 1]]) \<and>
   dot_mm ex2_unitary_matrix2 (T (conj_a ex2_unitary_matrix2)) = Inr (eye 2) \<and>
   is_unitary ex2_unitary_matrix2 = Inr True"
  using ex2_scaled ex2_product ex2_true by (simp add: ex2_is_unitary_def)

text \<open>
  C10: in the Exercise 2 cell the check runs on the scaled matrix \<open>unitary_matrix2\<close>
  and yields true, while the matrix shown beside that result is the unscaled
  \<open>[[1, i], [i, 1]]\<close>; that matrix is not unitary, its product with its conjugate
  transpose being twice the identity.
\<close>

theorem ex2_output_pairs_unscaled:
  "ex2_is_unitary = is_unitary ex2_unitary_matrix2 \<and>
   ex2_output = Inr (True, np_array [[1, \<i>], [\<i>, 1]]) \<and>
   dot_mm (np_array [[1, \<i>], [\<i>, 1]]) (T (conj_a (np_array [[1, \<i>], [\<i>, 1]]))) =
     Inr (smul 2 (eye 2)) \<and>
   smul 2 (eye 2) \<noteq> eye 2 \<and>
   is_unitary (np_array [[1, \<i>], [\<i>, 1]]) = Inr False"
proof (intro conjI)
  show "ex2_is_unitary = is_unitary ex2_unitary_matrix2"
    by (rule ex2_is_unitary_def)
  show "ex2_output = Inr (True, np_array [[1, \<i>], [\<i>, 1]])"
    by (simp add: ex2_output_def ex2_true bind_e_def ex2_unitary_matrix_def)
  show "dot_mm (np_array [[1, \<i>], [\<i>, 1]]) (T (conj_a (np_array [[1, \<i>], [\<i>, 1]]))) =
     Inr (smul 2 (eye 2))"
    using ex2_unscaled_product by (simp only: ex2_unitary_matrix_def)
  show "smul 2 (eye 2) \<noteq> eye 2"
    by (simp add: smul_def eye_def upt2)
  show "is_unitary (np_array [[1, \<i>], [\<i>, 1]]) = Inr False"
    using ex2_unscaled_false by (simp only: ex2_unitary_matrix_def)
qed

subsection \<open>Exercises 3 and 4: tensor products\<close>

lemma kron_prose: "kron_v [1 + \<i>, 2 - \<i>] [1 - 2 * \<i>, 3] = [3 - \<i>, 3 + 3 * \<i>, - (5 * \<i>), 6 - 3 * \<i>]"
  by (simp add: kron_v_def outer_def complex_eq_iff)

lemma kron_cell: "kron_v [2, 2 - \<i>] [1 - 2 * \<i>, 3] = [2 - 4 * \<i>, 6, - (5 * \<i>), 6 - 3 * \<i>]"
  by (simp add: kron_v_def outer_def complex_eq_iff)

lemma ex3_vectors: "ex3_v1 = [2, 2 - \<i>]" "ex3_v2 = [1 - 2 * \<i>, 3]"
  by (simp_all add: ex3_v1_def ex3_v2_def)

text \<open>
  C2: the tensor product of \<open>[1 + i, 2 - i]\<close> and \<open>[1 - 2i, 3]\<close>, the vectors of the
  prose of Exercise 3, is \<open>[3 - i, 3 + 3i, -5i, 6 - 3i]\<close>. The code cell of the
  exercise does not compute that vector: its \<open>v1\<close> is \<open>[2, 2 - i]\<close> and its value is
  \<open>[2 - 4i, 6, -5i, 6 - 3i]\<close>.
\<close>

theorem ex3_cell_value:
  "kron_v [1 + \<i>, 2 - \<i>] [1 - 2 * \<i>, 3] = [3 - \<i>, 3 + 3 * \<i>, - (5 * \<i>), 6 - 3 * \<i>] \<and>
   ex3_tensor_product_v = [2 - 4 * \<i>, 6, - (5 * \<i>), 6 - 3 * \<i>] \<and>
   ex3_tensor_product_v \<noteq> [3 - \<i>, 3 + 3 * \<i>, - (5 * \<i>), 6 - 3 * \<i>]"
proof -
  have "ex3_tensor_product_v = [2 - 4 * \<i>, 6, - (5 * \<i>), 6 - 3 * \<i>]"
    by (simp only: ex3_tensor_product_v_def ex3_vectors kron_cell)
  moreover have "[2 - 4 * \<i>, 6, - (5 * \<i>), 6 - 3 * \<i>] \<noteq> [3 - \<i>, 3 + 3 * \<i>, - (5 * \<i>), 6 - 3 * \<i>]"
    by (simp add: complex_eq_iff)
  ultimately show ?thesis
    using kron_prose by simp
qed

text \<open>
  C3, as stated: the answer \<open>[2 - 4i, 6, -5i, 6 - 3i]\<close> of the notebook would differ
  from the Kronecker product of the vectors of the code cell, \<open>v1 = [2, 2 - i]\<close> and
  \<open>v2 = [1 - 2i, 3]\<close>. It does not differ: it is that product.
\<close>

theorem ex3_answer_is_cell_product:
  "ex3_v1 = [2, 2 - \<i>] \<and> ex3_v2 = [1 - 2 * \<i>, 3] \<and>
   \<not> ([2 - 4 * \<i>, 6, - (5 * \<i>), 6 - 3 * \<i>] \<noteq> kron_v ex3_v1 ex3_v2)"
  by (simp only: ex3_vectors kron_cell simp_thms)

text \<open>
  C3, amended: the answer \<open>[2 - 4i, 6, -5i, 6 - 3i]\<close> of the notebook equals the
  Kronecker product of the vectors of the code cell, \<open>[2, 2 - i]\<close> and \<open>[1 - 2i, 3]\<close>;
  it differs from the Kronecker product of the vectors of the prose,
  \<open>[1 + i, 2 - i]\<close> and \<open>[1 - 2i, 3]\<close>.
\<close>

theorem ex3_answer_differs_from_prose_product:
  "kron_v [2, 2 - \<i>] [1 - 2 * \<i>, 3] = [2 - 4 * \<i>, 6, - (5 * \<i>), 6 - 3 * \<i>] \<and>
   [2 - 4 * \<i>, 6, - (5 * \<i>), 6 - 3 * \<i>] \<noteq> kron_v [1 + \<i>, 2 - \<i>] [1 - 2 * \<i>, 3]"
proof
  show "kron_v [2, 2 - \<i>] [1 - 2 * \<i>, 3] = [2 - 4 * \<i>, 6, - (5 * \<i>), 6 - 3 * \<i>]"
    by (rule kron_cell)
  show "[2 - 4 * \<i>, 6, - (5 * \<i>), 6 - 3 * \<i>] \<noteq> kron_v [1 + \<i>, 2 - \<i>] [1 - 2 * \<i>, 3]"
    unfolding kron_prose by (simp add: complex_eq_iff)
qed

text \<open>
  C6: the tensor product of \<open>[[0, 1], [1, 0]]\<close> and \<open>[[i, 0], [0, -i]]\<close> is the
  4 x 4 matrix with \<open>i\<close> at (0,2) and (2,0), \<open>-i\<close> at (1,3) and (3,1) and zero
  elsewhere, and its entries follow the rule \<open>C[i*r + k, j*s + l] = A[i,j] * B[k,l]\<close>
  with \<open>r = s = 2\<close>.
\<close>

theorem ex4_tensor_product_value:
  "ex4_tensor_product =
     np_array [[0, 0, \<i>, 0], [0, 0, 0, - \<i>], [\<i>, 0, 0, 0], [0, - \<i>, 0, 0]] \<and>
   nrows ex4_tensor_product = 4 \<and> ncols ex4_tensor_product = 4 \<and>
   (\<forall>i j k l. i < 2 \<longrightarrow> j < 2 \<longrightarrow> k < 2 \<longrightarrow> l < 2 \<longrightarrow>
      rows ex4_tensor_product ! (i * 2 + k) ! (j * 2 + l) =
      rows ex4_M1 ! i ! j * rows ex4_M2 ! k ! l)"
proof (intro conjI allI impI)
  show "ex4_tensor_product =
     np_array [[0, 0, \<i>, 0], [0, 0, 0, - \<i>], [\<i>, 0, 0, 0], [0, - \<i>, 0, 0]]"
    by (simp add: ex4_tensor_product_def ex4_M1_def ex4_M2_def kron_m_def kron_v_def
        outer_def np_array_def)
  show "nrows ex4_tensor_product = 4" and "ncols ex4_tensor_product = 4"
    by (simp_all add: ex4_tensor_product_def ex4_M1_def ex4_M2_def kron_m_def np_array_def)
next
  fix i j k l :: nat
  assume b: "i < 2" "j < 2" "k < 2" "l < 2"
  have wf: "wf_array2 ex4_M1" "wf_array2 ex4_M2"
    by (simp_all add: wf_array2_def ex4_M1_def ex4_M2_def np_array_def)
  have sh: "nrows ex4_M1 = 2" "ncols ex4_M1 = 2" "nrows ex4_M2 = 2" "ncols ex4_M2 = 2"
    by (simp_all add: ex4_M1_def ex4_M2_def np_array_def)
  from kron_m_entry [OF wf, of i k j l] b
  show "rows ex4_tensor_product ! (i * 2 + k) ! (j * 2 + l) =
      rows ex4_M1 ! i ! j * rows ex4_M2 ! k ! l"
    by (simp add: sh ex4_tensor_product_def)
qed

theorem ex4_tensor_product_value_witness:
  "(0::nat) < 2 \<and> (1::nat) < 2 \<and>
   rows ex4_tensor_product ! (0 * 2 + 0) ! (1 * 2 + 0) = rows ex4_M1 ! 0 ! 1 * rows ex4_M2 ! 0 ! 0 \<and>
   rows ex4_M1 ! 0 ! 1 * rows ex4_M2 ! 0 ! 0 = \<i>"
proof -
  have b: "(0::nat) < 2" "(1::nat) < 2" by simp_all
  from ex4_tensor_product_value b
  have "rows ex4_tensor_product ! (0 * 2 + 0) ! (1 * 2 + 0) =
      rows ex4_M1 ! 0 ! 1 * rows ex4_M2 ! 0 ! 0"
    by blast
  moreover have "rows ex4_M1 ! 0 ! 1 * rows ex4_M2 ! 0 ! 0 = \<i>"
    by (simp add: ex4_M1_def ex4_M2_def np_array_def)
  ultimately show ?thesis
    using b by (intro conjI)
qed

end
